theory Spec2Isabelle
  imports Complex_Main
begin

section \<open>JavaScript values carried by the application\<close>

text \<open>
  A JavaScript number is an IEEE-754 binary64 value: a finite value (every finite double
  is a rational), NaN or an infinity. The sign of zero is not kept: nothing in App.jsx can
  tell the two zeros apart (both are falsy and both print as 0.00).
\<close>

datatype jsnum = Fin rat | NaN | PosInf | NegInf

text \<open>
  The values that \<open>res.json()\<close> can deliver. An object keeps its members in the order of
  the text; \<open>undefined\<close> (a missing property) is \<open>None\<close> of \<open>jsval option\<close>.
\<close>

datatype jsval =
    JNull
  | JBool bool
  | JNum jsnum
  | JStr string
  | JArr "jsval list"
  | JObj "(string \<times> jsval) list"

datatype exn = TypeError | SyntaxError | FetchFailed

text \<open>ToBoolean, as used by \<open>!x\<close> and \<open>x || y\<close>.\<close>

fun truthy :: "jsval option \<Rightarrow> bool" where
  "truthy None = False"
| "truthy (Some JNull) = False"
| "truthy (Some (JBool b)) = b"
| "truthy (Some (JNum (Fin q))) = (q \<noteq> 0)"
| "truthy (Some (JNum NaN)) = False"
| "truthy (Some (JNum PosInf)) = True"
| "truthy (Some (JNum NegInf)) = True"
| "truthy (Some (JStr s)) = (s \<noteq> [])"
| "truthy (Some (JArr xs)) = True"
| "truthy (Some (JObj kvs)) = True"

text \<open>
  Property read \<open>v.k\<close> for the keys App.jsx reads (error, details, results, predictions,
  class, confidence; none of them is a built-in property of a string, number, boolean or
  array): on null it throws, on an object it is the member (the last one of that name, as
  JSON.parse keeps the last duplicate), on anything else it is undefined.
\<close>

fun get_prop :: "jsval \<Rightarrow> string \<Rightarrow> exn + jsval option" where
  "get_prop JNull k = Inl TypeError"
| "get_prop (JObj kvs) k = Inr (map_of (rev kvs) k)"
| "get_prop v k = Inr None"

text \<open>Optional chaining \<open>v?.k\<close>: undefined when \<open>v\<close> is null or undefined.\<close>

fun get_prop_opt :: "jsval option \<Rightarrow> string \<Rightarrow> jsval option" where
  "get_prop_opt None k = None"
| "get_prop_opt (Some JNull) k = None"
| "get_prop_opt (Some (JObj kvs)) k = map_of (rev kvs) k"
| "get_prop_opt (Some v) k = None"

text \<open>\<open>a || b\<close> on values.\<close>

definition or_else :: "jsval option \<Rightarrow> jsval \<Rightarrow> jsval" where
  "or_else a b = (if truthy a then the a else b)"

section \<open>Application state and the effects of the handlers\<close>

text \<open>The notification object \<open>{ type, text }\<close> held in the \<open>message\<close> state.\<close>

record msg =
  msg_type :: string
  msg_text :: jsval

text \<open>A File as the picker delivers it: name, size in bytes, MIME type.\<close>

record jsfile =
  file_name :: string
  file_size :: nat
  file_type :: string

text \<open>What a handler passes to \<open>console.error\<close> after the label.\<close>

datatype log_arg = LogValue jsval | LogExn exn

text \<open>
  The calls a handler makes, in program order. \<open>SetTimeout d\<close> is
  \<open>setTimeout(() => setMessage(null), d)\<close>, the only timer callback of the program;
  \<open>ReadAsDataURL f\<close> is \<open>reader.readAsDataURL(f)\<close> on a fresh reader whose
  \<open>onloadend\<close> is \<open>() => setImage(reader.result)\<close>; \<open>Fetch url d\<close> is the POST of
  \<open>{ imageData: d }\<close> to \<open>url\<close>.
\<close>

datatype action =
    SetImage "string option"
  | SetResult "jsval option"
  | SetLoading bool
  | SetMessage "msg option"
  | SetTimeout nat
  | SetInputValue string
  | ReadAsDataURL jsfile
  | Fetch string string
  | ConsoleError string log_arg

text \<open>
  The four \<open>useState\<close> cells of \<open>App\<close>, the value of the file input, the clock in
  milliseconds with the due times of the pending timers (none is ever cleared: the program
  keeps no timer id and never calls clearTimeout), the reads in progress and the requests
  sent.
\<close>

record app =
  image_val :: "string option"
  result :: "jsval option"
  loading :: bool
  message :: "msg option"
  input_value :: string
  now :: nat
  timers :: "nat list"
  reads :: "jsfile list"
  requests :: "(string \<times> string) list"
  console :: "(string \<times> log_arg) list"

definition initial :: app where
  "initial = \<lparr> image_val = None, result = None, loading = False, message = None,
     input_value = [], now = 0, timers = [], reads = [], requests = [], console = [] \<rparr>"

fun exec :: "action \<Rightarrow> app \<Rightarrow> app" where
  "exec (SetImage v) s = s\<lparr> image_val := v \<rparr>"
| "exec (SetResult v) s = s\<lparr> result := v \<rparr>"
| "exec (SetLoading b) s = s\<lparr> loading := b \<rparr>"
| "exec (SetMessage m) s = s\<lparr> message := m \<rparr>"
| "exec (SetTimeout d) s = s\<lparr> timers := timers s @ [now s + d] \<rparr>"
| "exec (SetInputValue v) s = s\<lparr> input_value := v \<rparr>"
| "exec (ReadAsDataURL f) s = s\<lparr> reads := reads s @ [f] \<rparr>"
| "exec (Fetch url d) s = s\<lparr> requests := requests s @ [(url, d)] \<rparr>"
| "exec (ConsoleError l a) s = s\<lparr> console := console s @ [(l, a)] \<rparr>"

definition run :: "action list \<Rightarrow> app \<Rightarrow> app" where
  "run acts s = fold exec acts s"

text \<open>
  Time passes by \<open>d\<close> milliseconds: every timer due by then fires and is gone. Each
  callback is \<open>setMessage(null)\<close>, so one firing timer is enough to clear the message.
\<close>

definition elapse :: "nat \<Rightarrow> app \<Rightarrow> app" where
  "elapse d s =
     (let t = now s + d;
          due = filter (\<lambda>u. u \<le> t) (timers s)
      in s\<lparr> now := t,
             timers := filter (\<lambda>u. t < u) (timers s),
             message := (if due = [] then message s else None) \<rparr>)"

text \<open>
  The \<open>loadend\<close> event of the reader started for \<open>f\<close>: \<open>r\<close> is \<open>reader.result\<close>, the
  data URL, or null when the read failed.
\<close>

definition loadend :: "jsfile \<Rightarrow> string option \<Rightarrow> app \<Rightarrow> app" where
  "loadend f r s = run [SetImage r] (s\<lparr> reads := remove1 f (reads s) \<rparr>)"

section \<open>The handlers of App\<close>

definition showMessage :: "string \<Rightarrow> jsval \<Rightarrow> action list" where
  "showMessage ty txt =
     [SetMessage (Some \<lparr> msg_type = ty, msg_text = txt \<rparr>), SetTimeout 5000]"

text \<open>The close button of the message box: \<open>onClose = () => setMessage(null)\<close>.\<close>

definition onClose :: "action list" where
  "onClose = [SetMessage None]"

text \<open>\<open>e.target.files?.[0]\<close>: the list is null on an input without files.\<close>

fun first_file :: "jsfile list option \<Rightarrow> jsfile option" where
  "first_file None = None"
| "first_file (Some []) = None"
| "first_file (Some (f # fs)) = Some f"

definition handleFileChange :: "jsfile list option \<Rightarrow> action list" where
  "handleFileChange files =
     (case first_file files of
        None \<Rightarrow> []
      | Some f \<Rightarrow>
          if file_size f > 10 * 1024 * 1024 then
            showMessage ''error'' (JStr ''File size exceeds the 10MB limit.'')
            @ [SetInputValue [], SetImage None]
          else [ReadAsDataURL f, SetResult None])"

text \<open>What \<open>await fetch(...)\<close> and then \<open>await res.json()\<close> deliver.\<close>

record response =
  ok :: bool
  body :: "jsval option"

datatype fetch_outcome = Rejected | Resolved response

definition endpoint :: string where
  "endpoint = ''https://backend-0pwz.onrender.com/api/classify''"

text \<open>\<open>!image\<close> on the image state: null and the empty string are falsy.\<close>

fun has_image :: "string option \<Rightarrow> bool" where
  "has_image None = False"
| "has_image (Some d) = (d \<noteq> [])"

text \<open>
  The \<open>try\<close> block after the request was sent: the calls it makes, or the exception it
  throws. Every throw happens before the first call of its branch (\<open>fetch\<close> rejecting,
  \<open>res.json()\<close> rejecting on a body that is not JSON, \<open>data.error\<close> and
  \<open>data.results\<close> on a null \<open>data\<close>).
\<close>

definition try_block :: "fetch_outcome \<Rightarrow> exn + action list" where
  "try_block out =
     (case out of
        Rejected \<Rightarrow> Inl FetchFailed
      | Resolved res \<Rightarrow>
          (case body res of
             None \<Rightarrow> Inl SyntaxError
           | Some data \<Rightarrow>
               if \<not> ok res then
                 (case get_prop data ''error'' of
                    Inl e \<Rightarrow> Inl e
                  | Inr err \<Rightarrow>
                      Inr (showMessage ''error''
                             (or_else err (JStr ''An unknown classification error occurred.''))
                           @ [ConsoleError ''Classification API Error:''
                                (LogValue (or_else (get_prop_opt (Some data) ''details'') data))]))
               else
                 (case get_prop data ''results'' of
                    Inl e \<Rightarrow> Inl e
                  | Inr rs \<Rightarrow>
                      Inr (SetResult (Some (or_else (get_prop_opt rs ''predictions'') (JArr [])))
                           # showMessage ''success'' (JStr ''Image classified successfully!'')))))"

text \<open>\<open>try\<close>, \<open>catch\<close> and \<open>finally\<close> once the request has settled.\<close>

definition settle :: "fetch_outcome \<Rightarrow> action list" where
  "settle out =
     (case try_block out of
        Inl err \<Rightarrow>
          ConsoleError ''Classification error:'' (LogExn err)
          # showMessage ''error'' (JStr ''Failed to connect to the backend server.'')
      | Inr acts \<Rightarrow> acts)
     @ [SetLoading False]"

text \<open>
  \<open>handleClassify\<close>, run with the \<open>image\<close> of the render it was created in; \<open>out\<close> is
  what the request settles to, and is not looked at when no request is sent.
\<close>

definition handleClassify :: "string option \<Rightarrow> fetch_outcome \<Rightarrow> action list" where
  "handleClassify img out =
     (if \<not> has_image img then
        showMessage ''info'' (JStr ''Please upload an image first.'')
      else
        [SetLoading True, SetResult None, SetMessage None, Fetch endpoint (the img)]
        @ settle out)"

definition classify :: "fetch_outcome \<Rightarrow> app \<Rightarrow> app" where
  "classify out s = run (handleClassify (image_val s) out) s"

definition selectFile :: "jsfile list option \<Rightarrow> app \<Rightarrow> app" where
  "selectFile files s = run (handleFileChange files) s"

definition show_msg :: "string \<Rightarrow> jsval \<Rightarrow> app \<Rightarrow> app" where
  "show_msg ty txt s = run (showMessage ty txt) s"

section \<open>Observations on a handler's calls\<close>

text \<open>The notifications a handler raises: its \<open>setMessage\<close> calls with an object.\<close>

fun notifications :: "action list \<Rightarrow> msg list" where
  "notifications [] = []"
| "notifications (SetMessage (Some m) # acts) = m # notifications acts"
| "notifications (a # acts) = notifications acts"

text \<open>The network calls a handler makes.\<close>

fun fetches :: "action list \<Rightarrow> (string \<times> string) list" where
  "fetches [] = []"
| "fetches (Fetch url d # acts) = (url, d) # fetches acts"
| "fetches (a # acts) = fetches acts"

text \<open>
  Modelled from the spec: \<open>FileReader.readAsDataURL\<close> belongs to the browser and is not
  under src/. Its result is "a self-describing base64 data representation retaining the
  file's MIME type": the scheme, the MIME type, the base64 marker and the base64 text
  \<open>b64\<close> of the content, which stays a parameter.
\<close>

definition data_url :: "string \<Rightarrow> string \<Rightarrow> string" where
  "data_url mime b64 = ''data:'' @ mime @ '';base64,'' @ b64"

section \<open>Numbers: multiplication by 100 and \<open>toFixed(2)\<close>\<close>

text \<open>The number of bits of a positive integer; 0 for the others.\<close>

function bit_length :: "int \<Rightarrow> int" where
  "bit_length n = (if n \<le> 0 then 0 else 1 + bit_length (n div 2))"
  by pat_completeness auto
termination
  by (relation "measure nat") auto

declare bit_length.simps [simp del]

definition pow2 :: "int \<Rightarrow> rat" where
  "pow2 e = (if 0 \<le> e then 2 ^ nat e else 1 / 2 ^ nat (- e))"

text \<open>The binary exponent of a positive rational \<open>a\<close>: the \<open>e\<close> with \<open>2^e \<le> a < 2^(e+1)\<close>.\<close>

definition ilog2 :: "rat \<Rightarrow> int" where
  "ilog2 a = (if 1 \<le> a then bit_length \<lfloor>a\<rfloor> - 1
              else - bit_length (\<lceil>1 / a\<rceil> - 1))"

definition round_half_even :: "rat \<Rightarrow> int" where
  "round_half_even r =
     (let f = \<lfloor>r\<rfloor>; d = r - of_int f
      in if d < 1 / 2 then f else if 1 / 2 < d then f + 1 else if even f then f else f + 1)"

text \<open>
  The binary64 value of an exact result, rounding to nearest, ties to even: 53 significant
  bits, the last bit never below \<open>2^-1074\<close> (subnormal numbers), infinity from \<open>2^1024\<close> on.
\<close>

definition to_double :: "rat \<Rightarrow> jsnum" where
  "to_double q =
     (if q = 0 then Fin 0
      else let a = \<bar>q\<bar>;
               e = max (ilog2 a - 52) (- 1074);
               v = of_int (round_half_even (a / pow2 e)) * pow2 e
           in if 2 ^ 1024 \<le> v then (if q < 0 then NegInf else PosInf)
              else Fin (if q < 0 then - v else v))"

text \<open>\<open>x * 100\<close> on numbers.\<close>

fun times100 :: "jsnum \<Rightarrow> jsnum" where
  "times100 (Fin q) = to_double (q * 100)"
| "times100 NaN = NaN"
| "times100 PosInf = PosInf"
| "times100 NegInf = NegInf"

text \<open>
  ToNumber, applied by \<open>*\<close> to its left operand. The conversion of a string, an array or
  an object is the runtime's and is taken as the parameter \<open>coerce\<close>.
\<close>

fun to_number :: "(jsval \<Rightarrow> jsnum) \<Rightarrow> jsval option \<Rightarrow> jsnum" where
  "to_number coerce None = NaN"
| "to_number coerce (Some (JNum x)) = x"
| "to_number coerce (Some JNull) = Fin 0"
| "to_number coerce (Some (JBool b)) = Fin (if b then 1 else 0)"
| "to_number coerce (Some v) = coerce v"

definition digit :: "nat \<Rightarrow> char" where
  "digit d = ''0123456789'' ! d"

fun decimal :: "nat \<Rightarrow> string" where
  "decimal n = (if n < 10 then [digit n] else decimal (n div 10) @ [digit (n mod 10)])"

declare decimal.simps [simp del]

text \<open>
  \<open>Number.prototype.toFixed\<close> with 2 fraction digits: \<open>n\<close> is the integer nearest to
  \<open>100 * x\<close>, the larger one of two; its digits are padded with zeros to three and the
  point goes before the last two. From \<open>10^21\<close> on the result is the runtime's
  Number-to-string conversion, the parameter \<open>big\<close>.
\<close>

definition toFixed2 :: "(rat \<Rightarrow> string) \<Rightarrow> jsnum \<Rightarrow> string" where
  "toFixed2 big x =
     (case x of
        NaN \<Rightarrow> ''NaN''
      | PosInf \<Rightarrow> ''Infinity''
      | NegInf \<Rightarrow> ''-Infinity''
      | Fin q \<Rightarrow>
          (let s = (if q < 0 then ''-'' else []); a = \<bar>q\<bar>
           in if 10 ^ 21 \<le> a then s @ big a
              else let n = nat \<lfloor>a * 100 + 1 / 2\<rfloor>;
                       m = decimal n;
                       m' = (if length m \<le> 2 then replicate (3 - length m) (CHR ''0'') @ m
                             else m);
                       k = length m'
                   in s @ take (k - 2) m' @ ''.'' @ drop (k - 2) m'))"

section \<open>The result list of App\<close>

text \<open>
  One element of the list \<open>formatResults\<close> returns: its key, the child of the label span
  (\<open>item.class\<close> as it is) and the text of the confidence paragraph.
\<close>

record line =
  line_key :: nat
  label_child :: "jsval option"
  confidence_text :: string

text \<open>\<open>formatResults\<close> returns a string or an array of elements.\<close>

datatype rendered = Placeholder string | Lines "line list"

fun isArray :: "jsval option \<Rightarrow> bool" where
  "isArray (Some (JArr xs)) = True"
| "isArray v = False"

fun array_items :: "jsval option \<Rightarrow> jsval list" where
  "array_items (Some (JArr xs)) = xs"
| "array_items v = []"

definition format_item ::
  "(jsval \<Rightarrow> jsnum) \<Rightarrow> (rat \<Rightarrow> string) \<Rightarrow> nat \<Rightarrow> jsval \<Rightarrow> exn + line" where
  "format_item coerce big index item =
     (case get_prop item ''class'' of
        Inl e \<Rightarrow> Inl e
      | Inr cls \<Rightarrow>
          Inr \<lparr> line_key = index,
                label_child = cls,
                confidence_text =
                  ''Confidence: ''
                  @ toFixed2 big
                      (times100 (to_number coerce (get_prop_opt (Some item) ''confidence'')))
                  @ ''%'' \<rparr>)"

text \<open>\<open>res.map((item, index) => ...)\<close>: the first throw ends the whole call.\<close>

fun map_items :: "(nat \<Rightarrow> jsval \<Rightarrow> exn + line) \<Rightarrow> nat \<Rightarrow> jsval list \<Rightarrow> exn + line list" where
  "map_items f i [] = Inr []"
| "map_items f i (x # xs) =
     (case f i x of
        Inl e \<Rightarrow> Inl e
      | Inr l \<Rightarrow> (case map_items f (Suc i) xs of Inl e \<Rightarrow> Inl e | Inr ls \<Rightarrow> Inr (l # ls)))"

definition formatResults ::
  "(jsval \<Rightarrow> jsnum) \<Rightarrow> (rat \<Rightarrow> string) \<Rightarrow> jsval option \<Rightarrow> exn + rendered" where
  "formatResults coerce big res =
     (if \<not> truthy res \<or> \<not> isArray res then Inr (Placeholder ''No data returned.'')
      else (case map_items (format_item coerce big) 0 (array_items res) of
              Inl e \<Rightarrow> Inl e
            | Inr ls \<Rightarrow> Inr (Lines ls)))"

text \<open>The results panel of \<open>App\<close>: \<open>{result && (... formatResults(result) ...)}\<close>.\<close>

definition results_panel ::
  "(jsval \<Rightarrow> jsnum) \<Rightarrow> (rat \<Rightarrow> string) \<Rightarrow> jsval option \<Rightarrow> (exn + rendered) option" where
  "results_panel coerce big res =
     (if truthy res then Some (formatResults coerce big res) else None)"

text \<open>
  The spec's reading of a stored entry: \<open>item\<close> is a prediction with label \<open>l\<close> and
  confidence \<open>c\<close> when its \<open>class\<close> is the string \<open>l\<close> and its \<open>confidence\<close> is the
  number \<open>c\<close>, between 0 and 1.
\<close>

definition prediction :: "jsval \<Rightarrow> string \<times> rat \<Rightarrow> bool" where
  "prediction item e \<longleftrightarrow>
     get_prop_opt (Some item) ''class'' = Some (JStr (fst e))
     \<and> get_prop_opt (Some item) ''confidence'' = Some (JNum (Fin (snd e)))
     \<and> 0 \<le> snd e \<and> snd e \<le> 1"

text \<open>
  The spec's rendering with exactly two decimal digits, of a count \<open>n\<close> of hundredths:
  the digits of the whole part, the point, the digit of the tenths and the digit of the
  hundredths.
\<close>

definition two_decimals :: "nat \<Rightarrow> string" where
  "two_decimals n = decimal (n div 100) @ ''.'' @ [digit (n div 10 mod 10), digit (n mod 10)]"


text \<open>
  A rendered line shows an entry: the child of its label is the entry's label, and its
  confidence paragraph is the two-decimal rendering of \<open>n\<close> hundredths, \<open>n\<close> the
  integer nearest to 100 times the product \<open>x\<close> of the confidence and 100.
\<close>

definition shows_entry :: "line \<Rightarrow> string \<times> rat \<Rightarrow> bool" where
  "shows_entry l e \<longleftrightarrow>
     label_child l = Some (JStr (fst e))
     \<and> (\<exists>x. times100 (Fin (snd e)) = Fin x
           \<and> \<bar>rat_of_nat (nat \<lfloor>x * 100 + 1 / 2\<rfloor>) - x * 100\<bar> \<le> 1 / 2
           \<and> confidence_text l =
               ''Confidence: '' @ two_decimals (nat \<lfloor>x * 100 + 1 / 2\<rfloor>) @ ''%'')"

section \<open>Shared lemmas\<close>

lemma get_prop_not_null:
  "data \<noteq> JNull \<Longrightarrow> get_prop data k = Inr (get_prop_opt (Some data) k)"
  by (cases data) simp_all

text \<open>The three ways a settled request ends: the catch block, the error reply, the success.\<close>

lemma settle_cases:
  "settle out =
     ConsoleError ''Classification error:''
       (LogExn (case out of Rejected \<Rightarrow> FetchFailed
                | Resolved res \<Rightarrow> (case body res of None \<Rightarrow> SyntaxError | Some d \<Rightarrow> TypeError)))
     # showMessage ''error'' (JStr ''Failed to connect to the backend server.'')
     @ [SetLoading False]
   \<or> (\<exists>res data. out = Resolved res \<and> body res = Some data \<and> data \<noteq> JNull \<and> \<not> ok res \<and>
        settle out =
          showMessage ''error''
            (or_else (get_prop_opt (Some data) ''error'')
               (JStr ''An unknown classification error occurred.''))
          @ [ConsoleError ''Classification API Error:''
               (LogValue (or_else (get_prop_opt (Some data) ''details'') data)),
             SetLoading False])
   \<or> (\<exists>res data. out = Resolved res \<and> body res = Some data \<and> data \<noteq> JNull \<and> ok res \<and>
        settle out =
          SetResult (Some (or_else (get_prop_opt (get_prop_opt (Some data) ''results'')
                                      ''predictions'') (JArr [])))
          # showMessage ''success'' (JStr ''Image classified successfully!'')
          @ [SetLoading False])"
proof (cases out)
  case Rejected
  then show ?thesis by (simp add: settle_def try_block_def)
next
  case (Resolved res)
  show ?thesis
  proof (cases "body res")
    case None
    with Resolved show ?thesis by (simp add: settle_def try_block_def)
  next
    case (Some data)
    show ?thesis
    proof (cases "data = JNull")
      case True
      with Resolved Some show ?thesis by (simp add: settle_def try_block_def)
    next
      case False
      with Resolved Some show ?thesis
        by (simp add: settle_def try_block_def get_prop_not_null)
    qed
  qed
qed

subsection \<open>Bounds on the product with 100\<close>

lemma bit_length_nonneg: "0 \<le> bit_length n"
proof (induction n rule: bit_length.induct)
  case (1 n)
  show ?case
  proof (cases "n \<le> 0")
    case True
    then show ?thesis by (subst bit_length.simps) simp
  next
    case False
    with 1 show ?thesis by (subst bit_length.simps) simp
  qed
qed

lemma bit_length_le: "0 \<le> n \<Longrightarrow> bit_length n \<le> n"
proof (induction n rule: bit_length.induct)
  case (1 n)
  show ?case
  proof (cases "n \<le> 0")
    case True
    with 1(2) show ?thesis by (subst bit_length.simps) simp
  next
    case False
    then have "bit_length (n div 2) \<le> n div 2" using 1 by simp
    moreover have "1 + n div 2 \<le> n" using False by linarith
    ultimately show ?thesis using False by (subst bit_length.simps) simp
  qed
qed

text \<open>\<open>ilog2\<close> is the binary exponent.\<close>

lemma bit_length_pos: "1 \<le> n \<Longrightarrow> 1 \<le> bit_length n"
  using bit_length_nonneg [of "n div 2"] by (subst bit_length.simps) simp

lemma bit_length_bounds:
  "1 \<le> n \<Longrightarrow> 2 ^ nat (bit_length n - 1) \<le> n \<and> n < 2 ^ nat (bit_length n)"
proof (induction n rule: bit_length.induct)
  case (1 n)
  show ?case
  proof (cases "n = 1")
    case True
    have "bit_length 1 = 1" by (subst bit_length.simps, simp, subst bit_length.simps, simp)
    with True show ?thesis by simp
  next
    case False
    with 1(2) have h: "1 \<le> n div 2" "\<not> n \<le> 0" by simp_all
    define k where "k = bit_length (n div 2)"
    have k: "1 \<le> k" unfolding k_def using h(1) by (rule bit_length_pos)
    have ih: "2 ^ nat (k - 1) \<le> n div 2" "n div 2 < 2 ^ nat k"
      using 1(1) [OF h(2) h(1)] by (simp_all add: k_def)
    have bl: "bit_length n = 1 + k" using h(2) by (subst bit_length.simps) (simp add: k_def)
    have e1: "nat (1 + k - 1) = Suc (nat (k - 1))" using k by simp
    have e2: "nat (1 + k) = Suc (nat k)" using k by simp
    have "2 * (n div 2) \<le> n" by simp
    with ih(1) have lo: "2 ^ nat (1 + k - 1) \<le> n" unfolding e1 by simp
    have "n < 2 * (n div 2) + 2" by linarith
    moreover have "n div 2 + 1 \<le> 2 ^ nat k" using ih(2) by simp
    ultimately have hi: "n < 2 ^ nat (1 + k)" unfolding e2 by simp
    show ?thesis using lo hi by (simp add: bl)
  qed
qed

lemma ilog2_bounds:
  assumes "0 < a"
  shows "pow2 (ilog2 a) \<le> a \<and> a < pow2 (ilog2 a + 1)"
proof (cases "1 \<le> a")
  case True
  define n where "n = \<lfloor>a\<rfloor>"
  have n: "1 \<le> n" using True by (simp add: n_def)
  have b: "2 ^ nat (bit_length n - 1) \<le> n" "n < 2 ^ nat (bit_length n)"
    using bit_length_bounds [OF n] by simp_all
  have k: "1 \<le> bit_length n" using n by (rule bit_length_pos)
  have "rat_of_int (2 ^ nat (bit_length n - 1)) \<le> of_int n" using b(1) by (simp only: of_int_le_iff)
  also have "\<dots> \<le> a" by (simp add: n_def)
  finally have lo: "(2::rat) ^ nat (bit_length n - 1) \<le> a" by simp
  have "n + 1 \<le> 2 ^ nat (bit_length n)" using b(2) by simp
  then have "rat_of_int (n + 1) \<le> of_int (2 ^ nat (bit_length n))" by (simp only: of_int_le_iff)
  moreover have "a < of_int (n + 1)" unfolding n_def using floor_correct [of a] by simp
  ultimately have "a < rat_of_int (2 ^ nat (bit_length n))" by (rule order_less_le_trans [rotated])
  then have hi: "a < (2::rat) ^ nat (bit_length n)" by simp
  show ?thesis using True lo hi k by (simp add: ilog2_def pow2_def n_def [symmetric])
next
  case False
  define b where "b = 1 / a"
  define m where "m = \<lceil>b\<rceil> - 1"
  have b1: "1 < b" using False assms by (simp add: b_def)
  then have "1 < \<lceil>b\<rceil>" by (simp add: less_ceiling_iff)
  then have m: "1 \<le> m" by (simp add: m_def)
  have bb: "2 ^ nat (bit_length m - 1) \<le> m" "m < 2 ^ nat (bit_length m)"
    using bit_length_bounds [OF m] by simp_all
  have k: "1 \<le> bit_length m" using m by (rule bit_length_pos)
  have mb: "rat_of_int m < b" unfolding m_def using ceiling_correct [of b] by simp
  have "rat_of_int (2 ^ nat (bit_length m - 1)) \<le> of_int m"
    using bb(1) by (simp only: of_int_le_iff)
  then have "rat_of_int (2 ^ nat (bit_length m - 1)) < b"
    using mb by (rule order_le_less_trans)
  then have lo: "(2::rat) ^ nat (bit_length m - 1) < b" by simp
  have "m + 1 \<le> 2 ^ nat (bit_length m)" using bb(2) by simp
  then have "rat_of_int (m + 1) \<le> of_int (2 ^ nat (bit_length m))" by (simp only: of_int_le_iff)
  moreover have "b \<le> of_int (m + 1)" unfolding m_def using ceiling_correct [of b] by simp
  ultimately have "b \<le> rat_of_int (2 ^ nat (bit_length m))" by (rule order_trans [rotated])
  then have hi: "b \<le> (2::rat) ^ nat (bit_length m)" by simp
  have a_eq: "a = 1 / b" using assms by (simp add: b_def)
  have p1: "1 / (2::rat) ^ nat (bit_length m) \<le> a"
    unfolding a_eq using hi b1 by (simp add: frac_le)
  have p2: "a < 1 / (2::rat) ^ nat (bit_length m - 1)"
    unfolding a_eq using lo by (simp add: frac_less2)
  have i: "ilog2 a = - bit_length m" using False by (simp add: ilog2_def m_def b_def)
  show ?thesis
  proof (cases "bit_length m = 1")
    case True
    then show ?thesis using p1 p2 by (simp add: i pow2_def)
  next
    case False
    with k have "1 < bit_length m" by simp
    moreover have "nat (bit_length m - 1) = nat (- (1 - bit_length m))" by simp
    ultimately show ?thesis using p1 p2 by (simp add: i pow2_def)
  qed
qed

lemma ilog2_le: assumes "0 < a" and "a \<le> 100" shows "ilog2 a \<le> 99"
proof (cases "1 \<le> a")
  case True
  have "\<lfloor>a\<rfloor> \<le> 100" using assms(2) by (simp add: floor_le_iff)
  moreover have "0 \<le> \<lfloor>a\<rfloor>" using assms(1) by simp
  ultimately have "bit_length \<lfloor>a\<rfloor> \<le> 100" using bit_length_le [of "\<lfloor>a\<rfloor>"] by linarith
  with True show ?thesis by (simp add: ilog2_def)
next
  case False
  then show ?thesis using bit_length_nonneg [of "\<lceil>1 / a\<rceil> - 1"] by (simp add: ilog2_def)
qed

lemma pow2_pos: "0 < pow2 e"
  by (simp add: pow2_def)

lemma pow2_le: assumes "e \<le> 47" shows "pow2 e \<le> 2 ^ 47"
proof (cases "0 \<le> e")
  case True
  then have "nat e \<le> 47" using assms by simp
  then have "(2::rat) ^ nat e \<le> 2 ^ 47" by (intro power_increasing) simp_all
  with True show ?thesis by (simp add: pow2_def)
next
  case False
  have "1 / (2::rat) ^ nat (- e) \<le> 1" by simp
  also have "(1::rat) \<le> 2 ^ 47" by simp
  finally show ?thesis using False by (simp add: pow2_def)
qed

lemma round_half_even_bounds:
  "of_int (round_half_even r) \<le> r + 1" "0 \<le> r \<Longrightarrow> 0 \<le> round_half_even r"
proof -
  have f: "rat_of_int \<lfloor>r\<rfloor> \<le> r + 1"
    by (rule order_trans [OF of_int_floor_le]) simp
  show "of_int (round_half_even r) \<le> r + 1"
    using f by (simp add: round_half_even_def Let_def)
  assume "0 \<le> r"
  then have "0 \<le> \<lfloor>r\<rfloor>" by simp
  then show "0 \<le> round_half_even r"
    by (simp add: round_half_even_def Let_def)
qed

lemma times100_unit_interval:
  assumes "0 \<le> c" and "c \<le> 1"
  shows "\<exists>x. times100 (Fin c) = Fin x \<and> 0 \<le> x \<and> x < 10 ^ 21"
proof (cases "c = 0")
  case True
  then show ?thesis by (simp add: to_double_def)
next
  case False
  define a where "a = c * 100"
  define e where "e = max (ilog2 a - 52) (- 1074)"
  define m where "m = round_half_even (a / pow2 e)"
  define v where "v = of_int m * pow2 e"
  have a: "0 < a" "a \<le> 100" using assms False by (simp_all add: a_def)
  have "e \<le> 47" using ilog2_le [OF a] by (simp add: e_def)
  then have p: "pow2 e \<le> 2 ^ 47" by (rule pow2_le)
  have p0: "0 < pow2 e" by (rule pow2_pos)
  have r0: "0 \<le> a / pow2 e" using a p0 by simp
  have m0: "0 \<le> m" unfolding m_def using r0 by (rule round_half_even_bounds)
  have "of_int m \<le> a / pow2 e + 1" unfolding m_def by (rule round_half_even_bounds)
  then have "of_int m * pow2 e \<le> (a / pow2 e + 1) * pow2 e"
    using p0 by (simp add: mult_right_mono)
  also have "\<dots> = a + pow2 e" using p0 by (simp add: field_simps)
  finally have v: "v \<le> 100 + 2 ^ 47" using a p by (simp add: v_def)
  have v0: "0 \<le> v" using m0 p0 by (simp add: v_def)
  have "(100::rat) + 2 ^ 47 < 2 ^ 1024" by simp
  with v have nov: "\<not> 2 ^ 1024 \<le> v" by linarith
  have "(100::rat) + 2 ^ 47 < 10 ^ 21" by simp
  with v have small: "v < 10 ^ 21" by linarith
  have "times100 (Fin c) = Fin v"
    using a nov by (simp add: to_double_def Let_def a_def [symmetric] e_def [symmetric]
        m_def [symmetric] v_def [symmetric])
  with v0 small show ?thesis by blast
qed

subsection \<open>The digits of \<open>toFixed(2)\<close>\<close>

lemma decimal_small: "n < 10 \<Longrightarrow> decimal n = [digit n]"
  by (subst decimal.simps) simp

lemma decimal_step: "10 \<le> n \<Longrightarrow> decimal n = decimal (n div 10) @ [digit (n mod 10)]"
  by (subst decimal.simps) simp

lemma decimal_nonempty: "decimal n \<noteq> []"
  by (subst decimal.simps) simp

lemma digit_0: "digit 0 = CHR ''0''"
  by (simp add: digit_def)

text \<open>Padding to three digits and cutting before the last two gives the two decimals.\<close>

lemma pad_and_cut:
  "take (length (if length (decimal n) \<le> 2
                 then replicate (3 - length (decimal n)) (CHR ''0'') @ decimal n
                 else decimal n) - 2)
        (if length (decimal n) \<le> 2
         then replicate (3 - length (decimal n)) (CHR ''0'') @ decimal n
         else decimal n)
   @ ''.''
   @ drop (length (if length (decimal n) \<le> 2
                   then replicate (3 - length (decimal n)) (CHR ''0'') @ decimal n
                   else decimal n) - 2)
        (if length (decimal n) \<le> 2
         then replicate (3 - length (decimal n)) (CHR ''0'') @ decimal n
         else decimal n)
   = two_decimals n"
proof -
  consider "n < 10" | "10 \<le> n" "n < 100" | "100 \<le> n" by linarith
  then show ?thesis
  proof cases
    case 1
    then have "decimal n = [digit n]" by (rule decimal_small)
    moreover have "n div 100 = 0" "n div 10 mod 10 = 0" "n mod 10 = n" using 1 by simp_all
    ultimately show ?thesis
      by (simp add: two_decimals_def decimal_small digit_0 numeral_3_eq_3)
  next
    case 2
    then have "n div 10 < 10" by simp
    then have "decimal n = [digit (n div 10), digit (n mod 10)]"
      using 2 by (simp add: decimal_step decimal_small)
    moreover have "n div 100 = 0" "n div 10 mod 10 = n div 10" using 2 by simp_all
    ultimately show ?thesis
      by (simp add: two_decimals_def decimal_small digit_0)
  next
    case 3
    then have "10 \<le> n div 10" by simp
    moreover have "n div 10 div 10 = n div 100" by (simp add: div_mult2_eq [symmetric])
    ultimately have "decimal n = decimal (n div 100) @ [digit (n div 10 mod 10), digit (n mod 10)]"
      using 3 by (simp add: decimal_step)
    then show ?thesis by (simp add: two_decimals_def decimal_nonempty)
  qed
qed

lemma toFixed2_two_decimals:
  assumes "0 \<le> q" and "q < 10 ^ 21"
  shows "toFixed2 big (Fin q) = two_decimals (nat \<lfloor>q * 100 + 1 / 2\<rfloor>)"
  using assms pad_and_cut [of "nat \<lfloor>q * 100 + 1 / 2\<rfloor>"]
  by (simp add: toFixed2_def Let_def)

lemma nearest_hundredth:
  assumes "0 \<le> (x::rat)"
  shows "\<bar>rat_of_nat (nat \<lfloor>x * 100 + 1 / 2\<rfloor>) - x * 100\<bar> \<le> 1 / 2"
proof -
  have "0 \<le> \<lfloor>x * 100 + 1 / 2\<rfloor>" using assms by simp
  then have "rat_of_nat (nat \<lfloor>x * 100 + 1 / 2\<rfloor>) = of_int \<lfloor>x * 100 + 1 / 2\<rfloor>" by simp
  moreover have "of_int \<lfloor>x * 100 + 1 / 2\<rfloor> \<le> x * 100 + 1 / 2" by (rule of_int_floor_le)
  moreover have "x * 100 + 1 / 2 < of_int \<lfloor>x * 100 + 1 / 2\<rfloor> + 1"
    using floor_correct [of "x * 100 + 1 / 2"] by simp
  ultimately show ?thesis by linarith
qed

lemma format_item_prediction:
  assumes "prediction item e"
  shows "\<exists>l. format_item coerce big i item = Inr l \<and> line_key l = i \<and> shows_entry l e"
proof -
  from assms have cls: "get_prop_opt (Some item) ''class'' = Some (JStr (fst e))"
    and conf: "get_prop_opt (Some item) ''confidence'' = Some (JNum (Fin (snd e)))"
    and range: "0 \<le> snd e" "snd e \<le> 1"
    by (simp_all add: prediction_def)
  from cls have "item \<noteq> JNull" by auto
  then have g: "get_prop item ''class'' = Inr (Some (JStr (fst e)))"
    using cls by (simp add: get_prop_not_null)
  obtain x where x: "times100 (Fin (snd e)) = Fin x" "0 \<le> x" "x < 10 ^ 21"
    using times100_unit_interval [OF range] by blast
  have "toFixed2 big (Fin x) = two_decimals (nat \<lfloor>x * 100 + 1 / 2\<rfloor>)"
    using x(2,3) by (rule toFixed2_two_decimals)
  then show ?thesis
    using g conf x(1) nearest_hundredth [OF x(2)]
    by (auto simp add: format_item_def shows_entry_def)
qed

lemma map_items_predictions:
  assumes "list_all2 prediction items entries"
  shows "\<exists>ls. map_items (format_item coerce big) i items = Inr ls
            \<and> map line_key ls = [i ..< i + length items]
            \<and> list_all2 shows_entry ls entries"
  using assms
proof (induction items entries arbitrary: i rule: list_all2_induct)
  case Nil
  then show ?case by simp
next
  case (Cons item items e entries)
  obtain l where l: "format_item coerce big i item = Inr l" "line_key l = i" "shows_entry l e"
    using format_item_prediction [OF Cons.hyps(1)] by blast
  obtain ls where ls: "map_items (format_item coerce big) (Suc i) items = Inr ls"
    "map line_key ls = [Suc i ..< Suc i + length items]" "list_all2 shows_entry ls entries"
    using Cons.IH [of "Suc i"] by blast
  have "map_items (format_item coerce big) i (item # items) = Inr (l # ls)"
    using l(1) ls(1) by simp
  moreover have "map line_key (l # ls) = [i ..< i + length (item # items)]"
    using l(2) ls(2) by (simp add: upt_rec)
  moreover have "list_all2 shows_entry (l # ls) (e # entries)"
    using l(3) ls(3) by simp
  ultimately show ?case by blast
qed

subsection \<open>Evaluation on numerals\<close>

lemma bit_length_eval:
  "bit_length 0 = 0"
  "bit_length 1 = 1"
  "bit_length (numeral k) = 1 + bit_length (numeral k div 2)"
  by (subst bit_length.simps, simp)+

lemma floor_rat_numeral:
  "\<lfloor>numeral a / numeral b :: rat\<rfloor> = numeral a div numeral b"
  using floor_divide_of_int_eq [of "numeral a" "numeral b", where ?'a = rat] by simp

lemma ceiling_rat_numeral:
  "\<lceil>numeral a / numeral b :: rat\<rceil> = - (- numeral a div numeral b)"
  using floor_divide_of_int_eq [of "- numeral a" "numeral b", where ?'a = rat]
  by (simp add: ceiling_def)

lemma decimal_eval:
  "decimal 0 = [digit 0]"
  "decimal (Suc 0) = [digit (Suc 0)]"
  "decimal (numeral k) =
     (if numeral k < (10::nat) then [digit (numeral k)]
      else decimal (numeral k div 10) @ [digit (numeral k mod 10)])"
  by (subst decimal.simps, simp)+

lemmas js_eval = to_double_def ilog2_def bit_length_eval pow2_def round_half_even_def Let_def
  floor_rat_numeral ceiling_rat_numeral decimal_eval toFixed2_def digit_def

section \<open>Notifier\<close>

text \<open>
  Claim C1, as amended. \<open>showMessage\<close> replaces the visible notification by the new one
  and starts a fresh 5-second timer, but it cancels nothing: every timer that was pending
  stays pending, after them the new one. Any pending timer that fires clears whatever
  notification is visible then. So the new notification is still visible \<open>d\<close> milliseconds
  later exactly when \<open>d\<close> is below 5000 and no earlier timer has come due by then.
\<close>

theorem show_keeps_pending_timers:
  "message (show_msg ty txt s) = Some \<lparr> msg_type = ty, msg_text = txt \<rparr>
   \<and> timers (show_msg ty txt s) = timers s @ [now s + 5000]
   \<and> message (elapse d (show_msg ty txt s)) =
       (if d < 5000 \<and> (\<forall>u \<in> set (timers s). now s + d < u)
        then Some \<lparr> msg_type = ty, msg_text = txt \<rparr> else None)"
  by (auto simp add: show_msg_def showMessage_def run_def elapse_def Let_def filter_empty_conv
      not_less not_le intro: bexI)

theorem show_keeps_pending_timers_witness:
  "timers (show_msg ''error'' (JStr ''second'')
             (elapse 3000 (show_msg ''info'' (JStr ''first'') initial))) = [5000, 8000]
   \<and> message (elapse 1999 (show_msg ''error'' (JStr ''second'')
                (elapse 3000 (show_msg ''info'' (JStr ''first'') initial))))
       = Some \<lparr> msg_type = ''error'', msg_text = JStr ''second'' \<rparr>"
  using show_keeps_pending_timers [of "''error''" "JStr ''second''"
      "elapse 3000 (show_msg ''info'' (JStr ''first'') initial)" 1999]
  by (simp add: show_msg_def showMessage_def run_def elapse_def initial_def)

text \<open>
  Claim C1 as stated fails. A first notification is shown at time 0 and is visible with
  its timer pending (due at 5000). At time 3000 a second one is shown: the old timer is
  still pending beside the new one (due at 8000), and at time 5000, two seconds after it
  was shown, the second notification is cleared by the timer of the first.
\<close>

theorem show_cancel_counterexample:
  "message (show_msg ''info'' (JStr ''first'') initial)
       = Some \<lparr> msg_type = ''info'', msg_text = JStr ''first'' \<rparr>
   \<and> timers (show_msg ''info'' (JStr ''first'') initial) = [5000]
   \<and> message (show_msg ''error'' (JStr ''second'')
                (elapse 3000 (show_msg ''info'' (JStr ''first'') initial)))
       = Some \<lparr> msg_type = ''error'', msg_text = JStr ''second'' \<rparr>
   \<and> timers (show_msg ''error'' (JStr ''second'')
                (elapse 3000 (show_msg ''info'' (JStr ''first'') initial)))
       = [5000, 8000]
   \<and> message (elapse 2000 (show_msg ''error'' (JStr ''second'')
                (elapse 3000 (show_msg ''info'' (JStr ''first'') initial))))
       = None"
  by (simp add: show_msg_def showMessage_def run_def elapse_def initial_def)

section \<open>ImageIntake\<close>

text \<open>
  Claim C10. When the change event carries no file (the file list is null or empty),
  \<open>handleFileChange\<close> returns at once without a single call, and the whole state (image,
  result, message, loading and everything else) is as before.
\<close>

theorem selectFile_no_file:
  "first_file files = None \<Longrightarrow> handleFileChange files = [] \<and> selectFile files s = s"
  by (simp add: handleFileChange_def selectFile_def run_def)

theorem selectFile_no_file_witness:
  "first_file (Some []) = None
   \<and> handleFileChange (Some []) = []
   \<and> selectFile (Some []) (initial\<lparr> image_val := Some ''data:image/png;base64,AAAA'' \<rparr>)
       = initial\<lparr> image_val := Some ''data:image/png;base64,AAAA'' \<rparr>"
proof -
  have h: "first_file (Some []) = None" by simp
  show ?thesis
    using h selectFile_no_file [OF h, of "initial\<lparr> image_val := Some ''data:image/png;base64,AAAA'' \<rparr>"]
    by simp
qed

text \<open>
  Claim C4. For a file larger than 10 MiB, \<open>handleFileChange\<close> raises the one error
  notification "File size exceeds the 10MB limit.", sets the image to null whatever it was,
  empties the file input, starts no read and leaves the result as it was.
\<close>

theorem selectFile_oversize:
  assumes "first_file files = Some f" and "file_size f > 10 * 1024 * 1024"
  shows "notifications (handleFileChange files) =
           [\<lparr> msg_type = ''error'', msg_text = JStr ''File size exceeds the 10MB limit.'' \<rparr>]
       \<and> message (selectFile files s) =
           Some \<lparr> msg_type = ''error'', msg_text = JStr ''File size exceeds the 10MB limit.'' \<rparr>
       \<and> image_val (selectFile files s) = None
       \<and> input_value (selectFile files s) = []
       \<and> reads (selectFile files s) = reads s
       \<and> result (selectFile files s) = result s"
  using assms by (simp add: handleFileChange_def selectFile_def run_def showMessage_def)

theorem selectFile_oversize_witness:
  "first_file (Some [\<lparr> file_name = ''big.png'', file_size = 10485761, file_type = ''image/png'' \<rparr>])
     = Some \<lparr> file_name = ''big.png'', file_size = 10485761, file_type = ''image/png'' \<rparr>
   \<and> file_size \<lparr> file_name = ''big.png'', file_size = 10485761, file_type = ''image/png'' \<rparr>
       > 10 * 1024 * 1024
   \<and> image_val (selectFile
        (Some [\<lparr> file_name = ''big.png'', file_size = 10485761, file_type = ''image/png'' \<rparr>])
        (initial\<lparr> image_val := Some ''data:image/png;base64,AAAA'',
                  input_value := ''C:/fakepath/big.png'',
                  result := Some (JArr []) \<rparr>)) = None
   \<and> input_value (selectFile
        (Some [\<lparr> file_name = ''big.png'', file_size = 10485761, file_type = ''image/png'' \<rparr>])
        (initial\<lparr> image_val := Some ''data:image/png;base64,AAAA'',
                  input_value := ''C:/fakepath/big.png'',
                  result := Some (JArr []) \<rparr>)) = []
   \<and> result (selectFile
        (Some [\<lparr> file_name = ''big.png'', file_size = 10485761, file_type = ''image/png'' \<rparr>])
        (initial\<lparr> image_val := Some ''data:image/png;base64,AAAA'',
                  input_value := ''C:/fakepath/big.png'',
                  result := Some (JArr []) \<rparr>)) = Some (JArr [])"
proof -
  have h1: "first_file (Some [\<lparr> file_name = ''big.png'', file_size = 10485761, file_type = ''image/png'' \<rparr>])
     = Some \<lparr> file_name = ''big.png'', file_size = 10485761, file_type = ''image/png'' \<rparr>"
    by simp
  have h2: "file_size \<lparr> file_name = ''big.png'', file_size = 10485761, file_type = ''image/png'' \<rparr>
       > 10 * 1024 * 1024"
    by simp
  show ?thesis
    using h1 h2 selectFile_oversize [OF h1 h2,
        of "initial\<lparr> image_val := Some ''data:image/png;base64,AAAA'',
                  input_value := ''C:/fakepath/big.png'',
                  result := Some (JArr []) \<rparr>"]
    by (simp add: initial_def)
qed

text \<open>
  Claim C5. For a file of at most 10 MiB (of any type, so of every image type),
  \<open>handleFileChange\<close> starts the read of the file and sets the result to null, raising no
  notification. When the read then completes with the data URL of the file, the image is
  that data URL, which carries the MIME type of the file and is a non-empty string (so the
  image counts as present), and the result is still null.
\<close>

theorem selectFile_accepts:
  assumes "first_file files = Some f" and "file_size f \<le> 10 * 1024 * 1024"
  shows "result (selectFile files s) = None
       \<and> reads (selectFile files s) = reads s @ [f]
       \<and> notifications (handleFileChange files) = []
       \<and> image_val (loadend f (Some (data_url (file_type f) enc)) (selectFile files s))
            = Some (''data:'' @ file_type f @ '';base64,'' @ enc)
       \<and> has_image (image_val (loadend f (Some (data_url (file_type f) enc)) (selectFile files s)))
       \<and> result (loadend f (Some (data_url (file_type f) enc)) (selectFile files s)) = None"
  using assms
  by (simp add: handleFileChange_def selectFile_def run_def loadend_def data_url_def)

theorem selectFile_accepts_witness:
  "first_file (Some [\<lparr> file_name = ''can.jpg'', file_size = 2097152, file_type = ''image/jpeg'' \<rparr>])
     = Some \<lparr> file_name = ''can.jpg'', file_size = 2097152, file_type = ''image/jpeg'' \<rparr>
   \<and> file_size \<lparr> file_name = ''can.jpg'', file_size = 2097152, file_type = ''image/jpeg'' \<rparr>
       \<le> 10 * 1024 * 1024
   \<and> image_val (loadend \<lparr> file_name = ''can.jpg'', file_size = 2097152, file_type = ''image/jpeg'' \<rparr>
        (Some (data_url ''image/jpeg'' ''AAAA''))
        (selectFile
          (Some [\<lparr> file_name = ''can.jpg'', file_size = 2097152, file_type = ''image/jpeg'' \<rparr>])
          (initial\<lparr> result := Some (JArr []) \<rparr>)))
       = Some ''data:image/jpeg;base64,AAAA''
   \<and> result (loadend \<lparr> file_name = ''can.jpg'', file_size = 2097152, file_type = ''image/jpeg'' \<rparr>
        (Some (data_url ''image/jpeg'' ''AAAA''))
        (selectFile
          (Some [\<lparr> file_name = ''can.jpg'', file_size = 2097152, file_type = ''image/jpeg'' \<rparr>])
          (initial\<lparr> result := Some (JArr []) \<rparr>))) = None"
proof -
  have h1: "first_file (Some [\<lparr> file_name = ''can.jpg'', file_size = 2097152, file_type = ''image/jpeg'' \<rparr>])
     = Some \<lparr> file_name = ''can.jpg'', file_size = 2097152, file_type = ''image/jpeg'' \<rparr>"
    by simp
  have h2: "file_size \<lparr> file_name = ''can.jpg'', file_size = 2097152, file_type = ''image/jpeg'' \<rparr>
       \<le> 10 * 1024 * 1024"
    by simp
  show ?thesis
    using h1 h2 selectFile_accepts [OF h1 h2, of "initial\<lparr> result := Some (JArr []) \<rparr>" "''AAAA''"]
    by simp
qed

section \<open>ClassificationClient\<close>

text \<open>
  Claim C6. Invoked while the image is absent (null), \<open>handleClassify\<close> makes no network
  call, leaves the result and the loading flag as they were, and raises exactly one
  notification: severity info, text "Please upload an image first.".
\<close>

theorem classify_without_image:
  assumes "image_val s = None"
  shows "fetches (handleClassify (image_val s) out) = []
       \<and> requests (classify out s) = requests s
       \<and> result (classify out s) = result s
       \<and> loading (classify out s) = loading s
       \<and> notifications (handleClassify (image_val s) out) =
           [\<lparr> msg_type = ''info'', msg_text = JStr ''Please upload an image first.'' \<rparr>]
       \<and> message (classify out s) =
           Some \<lparr> msg_type = ''info'', msg_text = JStr ''Please upload an image first.'' \<rparr>"
  using assms by (simp add: handleClassify_def classify_def run_def showMessage_def)

theorem classify_without_image_witness:
  "image_val initial = None
   \<and> fetches (handleClassify (image_val initial) Rejected) = []
   \<and> requests (classify Rejected initial) = []
   \<and> result (classify Rejected initial) = None
   \<and> loading (classify Rejected initial) = False
   \<and> message (classify Rejected initial) =
       Some \<lparr> msg_type = ''info'', msg_text = JStr ''Please upload an image first.'' \<rparr>"
proof -
  have h: "image_val initial = None" by (simp add: initial_def)
  show ?thesis
    using h classify_without_image [OF h, of Rejected] by (simp add: initial_def)
qed

text \<open>
  Claim C2. Invoked with an image present, \<open>handleClassify\<close> calls \<open>setLoading(false)\<close>
  exactly once, as its last call, whatever the request settles to (a success reply, an error
  reply, a body that is not JSON, a rejected fetch), and the loading flag ends false, which
  enables the button again.
\<close>

theorem classify_clears_busy_once:
  assumes "has_image (image_val s)"
  shows "count_list (handleClassify (image_val s) out) (SetLoading False) = 1
       \<and> last (handleClassify (image_val s) out) = SetLoading False
       \<and> loading (classify out s) = False"
  using assms settle_cases [of out]
  by (auto simp add: handleClassify_def classify_def run_def showMessage_def)

theorem classify_clears_busy_once_witness:
  "has_image (image_val (initial\<lparr> image_val := Some ''data:image/png;base64,AAAA'' \<rparr>))
   \<and> count_list (handleClassify (Some ''data:image/png;base64,AAAA'')
        (Resolved \<lparr> ok = False, body = Some (JObj [(''error'', JStr ''bad image'')]) \<rparr>))
        (SetLoading False) = 1
   \<and> loading (classify
        (Resolved \<lparr> ok = False, body = Some (JObj [(''error'', JStr ''bad image'')]) \<rparr>)
        (initial\<lparr> image_val := Some ''data:image/png;base64,AAAA'' \<rparr>)) = False"
proof -
  have h: "has_image (image_val (initial\<lparr> image_val := Some ''data:image/png;base64,AAAA'' \<rparr>))"
    by simp
  show ?thesis
    using h classify_clears_busy_once [OF h,
        of "Resolved \<lparr> ok = False, body = Some (JObj [(''error'', JStr ''bad image'')]) \<rparr>"]
    by simp
qed

text \<open>
  Claim C8. When the fetch is rejected (no response was obtained), \<open>handleClassify\<close>
  raises exactly one notification, an error with the text "Failed to connect to the backend
  server."; it ends with the loading flag false, that error shown and the result null
  (the Failed state of the spec).
\<close>

theorem classify_transport_failure:
  assumes "has_image (image_val s)"
  shows "notifications (handleClassify (image_val s) Rejected) =
           [\<lparr> msg_type = ''error'', msg_text = JStr ''Failed to connect to the backend server.'' \<rparr>]
       \<and> message (classify Rejected s) =
           Some \<lparr> msg_type = ''error'', msg_text = JStr ''Failed to connect to the backend server.'' \<rparr>
       \<and> loading (classify Rejected s) = False
       \<and> result (classify Rejected s) = None"
  using assms
  by (simp add: handleClassify_def classify_def run_def showMessage_def settle_def try_block_def)

theorem classify_transport_failure_witness:
  "has_image (image_val (initial\<lparr> image_val := Some ''data:image/png;base64,AAAA'',
                                 result := Some (JArr []) \<rparr>))
   \<and> message (classify Rejected (initial\<lparr> image_val := Some ''data:image/png;base64,AAAA'',
                                          result := Some (JArr []) \<rparr>)) =
       Some \<lparr> msg_type = ''error'', msg_text = JStr ''Failed to connect to the backend server.'' \<rparr>
   \<and> loading (classify Rejected (initial\<lparr> image_val := Some ''data:image/png;base64,AAAA'',
                                          result := Some (JArr []) \<rparr>)) = False
   \<and> result (classify Rejected (initial\<lparr> image_val := Some ''data:image/png;base64,AAAA'',
                                         result := Some (JArr []) \<rparr>)) = None"
proof -
  have h: "has_image (image_val (initial\<lparr> image_val := Some ''data:image/png;base64,AAAA'',
                                          result := Some (JArr []) \<rparr>))"
    by simp
  show ?thesis
    using h classify_transport_failure [OF h] by simp
qed

text \<open>
  Claim C3, as amended. For a reply with a non-success status whose body is JSON and not
  null, \<open>handleClassify\<close> raises exactly one notification, an error whose text is the
  \<open>error\<close> member of the body when that member is truthy (present, and not the empty
  string, 0, false or null) and "An unknown classification error occurred." otherwise; it
  ends with the loading flag false, that error shown and the result null.
\<close>

theorem classify_service_error:
  assumes "has_image (image_val s)" and "\<not> ok res" and "body res = Some data"
    and "data \<noteq> JNull"
  shows "notifications (handleClassify (image_val s) (Resolved res)) =
           [\<lparr> msg_type = ''error'',
              msg_text = (if truthy (get_prop_opt (Some data) ''error'')
                          then the (get_prop_opt (Some data) ''error'')
                          else JStr ''An unknown classification error occurred.'') \<rparr>]
       \<and> message (classify (Resolved res) s) =
           Some \<lparr> msg_type = ''error'',
              msg_text = (if truthy (get_prop_opt (Some data) ''error'')
                          then the (get_prop_opt (Some data) ''error'')
                          else JStr ''An unknown classification error occurred.'') \<rparr>
       \<and> loading (classify (Resolved res) s) = False
       \<and> result (classify (Resolved res) s) = None"
  using assms
  by (simp add: handleClassify_def classify_def run_def showMessage_def settle_def try_block_def
      get_prop_not_null or_else_def)

theorem classify_service_error_witness:
  "has_image (image_val (initial\<lparr> image_val := Some ''data:image/png;base64,AAAA'' \<rparr>))
   \<and> \<not> ok \<lparr> ok = False, body = Some (JObj [(''error'', JStr ''bad image'')]) \<rparr>
   \<and> body \<lparr> ok = False, body = Some (JObj [(''error'', JStr ''bad image'')]) \<rparr>
       = Some (JObj [(''error'', JStr ''bad image'')])
   \<and> JObj [(''error'', JStr ''bad image'')] \<noteq> JNull
   \<and> message (classify
        (Resolved \<lparr> ok = False, body = Some (JObj [(''error'', JStr ''bad image'')]) \<rparr>)
        (initial\<lparr> image_val := Some ''data:image/png;base64,AAAA'' \<rparr>))
       = Some \<lparr> msg_type = ''error'', msg_text = JStr ''bad image'' \<rparr>
   \<and> result (classify
        (Resolved \<lparr> ok = False, body = Some (JObj [(''error'', JStr ''bad image'')]) \<rparr>)
        (initial\<lparr> image_val := Some ''data:image/png;base64,AAAA'' \<rparr>)) = None"
proof -
  have h1: "has_image (image_val (initial\<lparr> image_val := Some ''data:image/png;base64,AAAA'' \<rparr>))"
    by simp
  have h2: "\<not> ok \<lparr> ok = False, body = Some (JObj [(''error'', JStr ''bad image'')]) \<rparr>"
    by simp
  have h3: "body \<lparr> ok = False, body = Some (JObj [(''error'', JStr ''bad image'')]) \<rparr>
       = Some (JObj [(''error'', JStr ''bad image'')])"
    by simp
  have h4: "JObj [(''error'', JStr ''bad image'')] \<noteq> JNull" by simp
  show ?thesis
    using h1 h2 h3 h4 classify_service_error [OF h1 h2 h3 h4] by simp
qed

text \<open>
  Claim C3 as stated fails. A non-success reply whose body is \<open>{"error": ""}\<close> has
  the \<open>error\<close> member, yet the text shown is the fixed string and not the member. A
  non-success reply whose body is not JSON, or is the JSON \<open>null\<close>, has no \<open>error\<close>
  member, yet the text shown is "Failed to connect to the backend server." and not the
  fixed string.
\<close>

theorem classify_service_error_counterexample:
  "get_prop_opt (Some (JObj [(''error'', JStr [])])) ''error'' = Some (JStr [])
   \<and> message (classify (Resolved \<lparr> ok = False, body = Some (JObj [(''error'', JStr [])]) \<rparr>)
               (initial\<lparr> image_val := Some ''data:image/png;base64,AAAA'' \<rparr>))
       = Some \<lparr> msg_type = ''error'',
                msg_text = JStr ''An unknown classification error occurred.'' \<rparr>
   \<and> message (classify (Resolved \<lparr> ok = False, body = None \<rparr>)
               (initial\<lparr> image_val := Some ''data:image/png;base64,AAAA'' \<rparr>))
       = Some \<lparr> msg_type = ''error'',
                msg_text = JStr ''Failed to connect to the backend server.'' \<rparr>
   \<and> message (classify (Resolved \<lparr> ok = False, body = Some JNull \<rparr>)
               (initial\<lparr> image_val := Some ''data:image/png;base64,AAAA'' \<rparr>))
       = Some \<lparr> msg_type = ''error'',
                msg_text = JStr ''Failed to connect to the backend server.'' \<rparr>"
  by (simp add: handleClassify_def classify_def run_def showMessage_def settle_def try_block_def
      or_else_def initial_def)

text \<open>
  Claim C7, as amended. For a reply with a success status whose body is JSON and not
  null, \<open>handleClassify\<close> stores the empty list as the result when
  \<open>results.predictions\<close> is missing or falsy (no \<open>results\<close>, \<open>results\<close> null or not an
  object, no \<open>predictions\<close>, or \<open>predictions\<close> null, false, 0 or the empty string), and
  stores any truthy \<open>results.predictions\<close> unchanged, list or not; in both cases the one
  notification is the success "Image classified successfully!" and the loading flag ends
  false.
\<close>

theorem classify_success_predictions:
  assumes "has_image (image_val s)" and "ok res" and "body res = Some data"
    and "data \<noteq> JNull"
  shows "result (classify (Resolved res) s) =
           Some (if truthy (get_prop_opt (get_prop_opt (Some data) ''results'') ''predictions'')
                 then the (get_prop_opt (get_prop_opt (Some data) ''results'') ''predictions'')
                 else JArr [])
       \<and> notifications (handleClassify (image_val s) (Resolved res)) =
           [\<lparr> msg_type = ''success'', msg_text = JStr ''Image classified successfully!'' \<rparr>]
       \<and> message (classify (Resolved res) s) =
           Some \<lparr> msg_type = ''success'', msg_text = JStr ''Image classified successfully!'' \<rparr>
       \<and> loading (classify (Resolved res) s) = False"
  using assms
  by (simp add: handleClassify_def classify_def run_def showMessage_def settle_def try_block_def
      get_prop_not_null or_else_def)

theorem classify_success_predictions_witness:
  "has_image (image_val (initial\<lparr> image_val := Some ''data:image/png;base64,AAAA'' \<rparr>))
   \<and> ok \<lparr> ok = True, body = Some (JObj [(''results'', JObj [(''predictions'', JNull)])]) \<rparr>
   \<and> body \<lparr> ok = True, body = Some (JObj [(''results'', JObj [(''predictions'', JNull)])]) \<rparr>
       = Some (JObj [(''results'', JObj [(''predictions'', JNull)])])
   \<and> JObj [(''results'', JObj [(''predictions'', JNull)])] \<noteq> JNull
   \<and> result (classify
        (Resolved \<lparr> ok = True, body = Some (JObj [(''results'', JObj [(''predictions'', JNull)])]) \<rparr>)
        (initial\<lparr> image_val := Some ''data:image/png;base64,AAAA'' \<rparr>)) = Some (JArr [])
   \<and> message (classify
        (Resolved \<lparr> ok = True, body = Some (JObj [(''results'', JObj [(''predictions'', JNull)])]) \<rparr>)
        (initial\<lparr> image_val := Some ''data:image/png;base64,AAAA'' \<rparr>))
       = Some \<lparr> msg_type = ''success'', msg_text = JStr ''Image classified successfully!'' \<rparr>"
proof -
  have h1: "has_image (image_val (initial\<lparr> image_val := Some ''data:image/png;base64,AAAA'' \<rparr>))"
    by simp
  have h2: "ok \<lparr> ok = True, body = Some (JObj [(''results'', JObj [(''predictions'', JNull)])]) \<rparr>"
    by simp
  have h3: "body \<lparr> ok = True, body = Some (JObj [(''results'', JObj [(''predictions'', JNull)])]) \<rparr>
       = Some (JObj [(''results'', JObj [(''predictions'', JNull)])])"
    by simp
  have h4: "JObj [(''results'', JObj [(''predictions'', JNull)])] \<noteq> JNull" by simp
  show ?thesis
    using h1 h2 h3 h4 classify_success_predictions [OF h1 h2 h3 h4] by simp
qed

text \<open>
  Claim C7 as stated fails. In a success reply whose \<open>results.predictions\<close> is an
  object keyed by class name (a shape other than a list), the result stored is that object
  and not the empty list. In a success reply whose body is the JSON \<open>null\<close>, or is not
  JSON (so without any prediction list), the outcome is the error "Failed to connect to the
  backend server." and the result stays null.
\<close>

theorem classify_success_predictions_counterexample:
  "result (classify
      (Resolved \<lparr> ok = True, body = Some (JObj [(''results'',
          JObj [(''predictions'',
                 JObj [(''plastic'', JObj [(''confidence'', JNum (Fin (1/2)))])])])]) \<rparr>)
      (initial\<lparr> image_val := Some ''data:image/png;base64,AAAA'' \<rparr>))
     = Some (JObj [(''plastic'', JObj [(''confidence'', JNum (Fin (1/2)))])])
   \<and> result (classify (Resolved \<lparr> ok = True, body = Some JNull \<rparr>)
               (initial\<lparr> image_val := Some ''data:image/png;base64,AAAA'' \<rparr>)) = None
   \<and> message (classify (Resolved \<lparr> ok = True, body = Some JNull \<rparr>)
               (initial\<lparr> image_val := Some ''data:image/png;base64,AAAA'' \<rparr>))
       = Some \<lparr> msg_type = ''error'',
                msg_text = JStr ''Failed to connect to the backend server.'' \<rparr>
   \<and> result (classify (Resolved \<lparr> ok = True, body = None \<rparr>)
               (initial\<lparr> image_val := Some ''data:image/png;base64,AAAA'' \<rparr>)) = None
   \<and> message (classify (Resolved \<lparr> ok = True, body = None \<rparr>)
               (initial\<lparr> image_val := Some ''data:image/png;base64,AAAA'' \<rparr>))
       = Some \<lparr> msg_type = ''error'',
                msg_text = JStr ''Failed to connect to the backend server.'' \<rparr>"
  by (simp add: handleClassify_def classify_def run_def showMessage_def settle_def try_block_def
      or_else_def initial_def)

section \<open>ResultView\<close>

text \<open>
  Claim C9, as amended. For a present result that is not an array, \<open>formatResults\<close>
  returns the literal "No data returned.". For an array whose entries are all predictions (a string label
  under \<open>class\<close>, a confidence between 0 and 1) it returns exactly one line per entry, in
  the order of the entries and keyed by position; each line carries the entry's label and
  the text "Confidence: " followed by the percentage and "%". The percentage is the product
  \<open>x\<close> of the confidence and 100 (a binary64 multiplication) rendered with exactly two
  decimal digits: the digits of \<open>n div 100\<close>, a point and the two digits of
  \<open>n mod 100\<close>, where \<open>n\<close> is the integer nearest to \<open>100 * x\<close>. The instance after the
  theorem has the confidences 0.8732 and 0.5, rendered as 87.32% and 50.00%.
\<close>

theorem formatResults_lines:
  "(\<not> isArray (Some v) \<longrightarrow>
      formatResults coerce big (Some v) = Inr (Placeholder ''No data returned.''))
   \<and> (list_all2 prediction items entries \<longrightarrow>
        (\<exists>ls. formatResults coerce big (Some (JArr items)) = Inr (Lines ls)
             \<and> length ls = length entries
             \<and> (\<forall>i < length entries.
                   line_key (ls ! i) = i
                   \<and> label_child (ls ! i) = Some (JStr (fst (entries ! i)))
                   \<and> (\<exists>x. times100 (Fin (snd (entries ! i))) = Fin x
                         \<and> \<bar>rat_of_nat (nat \<lfloor>x * 100 + 1 / 2\<rfloor>) - x * 100\<bar> \<le> 1 / 2
                         \<and> confidence_text (ls ! i) =
                             ''Confidence: '' @ two_decimals (nat \<lfloor>x * 100 + 1 / 2\<rfloor>) @ ''%''))))"
proof (intro conjI impI)
  assume "\<not> isArray (Some v)"
  then show "formatResults coerce big (Some v) = Inr (Placeholder ''No data returned.'')"
    by (simp add: formatResults_def)
next
  assume p: "list_all2 prediction items entries"
  obtain ls where ls: "map_items (format_item coerce big) 0 items = Inr ls"
    "map line_key ls = [0 ..< 0 + length items]" "list_all2 shows_entry ls entries"
    using map_items_predictions [OF p, of coerce big 0] by blast
  have len: "length ls = length entries" using ls(3) by (rule list_all2_lengthD)
  have len': "length items = length entries" using p by (rule list_all2_lengthD)
  have f: "formatResults coerce big (Some (JArr items)) = Inr (Lines ls)"
    using ls(1) by (simp add: formatResults_def)
  have "\<forall>i < length entries.
          line_key (ls ! i) = i
          \<and> label_child (ls ! i) = Some (JStr (fst (entries ! i)))
          \<and> (\<exists>x. times100 (Fin (snd (entries ! i))) = Fin x
                \<and> \<bar>rat_of_nat (nat \<lfloor>x * 100 + 1 / 2\<rfloor>) - x * 100\<bar> \<le> 1 / 2
                \<and> confidence_text (ls ! i) =
                    ''Confidence: '' @ two_decimals (nat \<lfloor>x * 100 + 1 / 2\<rfloor>) @ ''%'')"
  proof (intro allI impI)
    fix i assume i: "i < length entries"
    then have "shows_entry (ls ! i) (entries ! i)"
      using ls(3) len by (simp add: list_all2_nthD)
    moreover have "line_key (ls ! i) = i"
    proof -
      have "map line_key ls ! i = [0 ..< 0 + length items] ! i" using ls(2) by simp
      then show ?thesis using i len len' by simp
    qed
    ultimately show "line_key (ls ! i) = i
          \<and> label_child (ls ! i) = Some (JStr (fst (entries ! i)))
          \<and> (\<exists>x. times100 (Fin (snd (entries ! i))) = Fin x
                \<and> \<bar>rat_of_nat (nat \<lfloor>x * 100 + 1 / 2\<rfloor>) - x * 100\<bar> \<le> 1 / 2
                \<and> confidence_text (ls ! i) =
                    ''Confidence: '' @ two_decimals (nat \<lfloor>x * 100 + 1 / 2\<rfloor>) @ ''%'')"
      by (simp add: shows_entry_def)
  qed
  with f len
  show "\<exists>ls. formatResults coerce big (Some (JArr items)) = Inr (Lines ls)
             \<and> length ls = length entries
             \<and> (\<forall>i < length entries.
                   line_key (ls ! i) = i
                   \<and> label_child (ls ! i) = Some (JStr (fst (entries ! i)))
                   \<and> (\<exists>x. times100 (Fin (snd (entries ! i))) = Fin x
                         \<and> \<bar>rat_of_nat (nat \<lfloor>x * 100 + 1 / 2\<rfloor>) - x * 100\<bar> \<le> 1 / 2
                         \<and> confidence_text (ls ! i) =
                             ''Confidence: '' @ two_decimals (nat \<lfloor>x * 100 + 1 / 2\<rfloor>) @ ''%''))"
    by blast
qed

theorem formatResults_lines_witness:
  "\<not> isArray (Some (JObj [(''plastic'', JNum (Fin (1 / 2)))]))
   \<and> formatResults (\<lambda>v. NaN) (\<lambda>q. []) (Some (JObj [(''plastic'', JNum (Fin (1 / 2)))]))
       = Inr (Placeholder ''No data returned.'')
   \<and> to_double (8732 / 10000) = Fin (3932543194619917 / 4503599627370496)
   \<and> list_all2 prediction
        [JObj [(''class'', JStr ''plastic''),
               (''confidence'', JNum (Fin (3932543194619917 / 4503599627370496)))],
         JObj [(''class'', JStr ''paper''), (''confidence'', JNum (Fin (1 / 2)))]]
        [(''plastic'', 3932543194619917 / 4503599627370496), (''paper'', 1 / 2)]
   \<and> formatResults (\<lambda>v. NaN) (\<lambda>q. [])
        (Some (JArr
          [JObj [(''class'', JStr ''plastic''),
                 (''confidence'', JNum (Fin (3932543194619917 / 4503599627370496)))],
           JObj [(''class'', JStr ''paper''), (''confidence'', JNum (Fin (1 / 2)))]]))
       = Inr (Lines
          [\<lparr> line_key = 0, label_child = Some (JStr ''plastic''),
             confidence_text = ''Confidence: 87.32%'' \<rparr>,
           \<lparr> line_key = 1, label_child = Some (JStr ''paper''),
             confidence_text = ''Confidence: 50.00%'' \<rparr>])"
proof -
  have h1: "\<not> isArray (Some (JObj [(''plastic'', JNum (Fin (1 / 2)))]))" by simp
  have h2: "list_all2 prediction
        [JObj [(''class'', JStr ''plastic''),
               (''confidence'', JNum (Fin (3932543194619917 / 4503599627370496)))],
         JObj [(''class'', JStr ''paper''), (''confidence'', JNum (Fin (1 / 2)))]]
        [(''plastic'', 3932543194619917 / 4503599627370496), (''paper'', 1 / 2)]"
    by (simp add: prediction_def)
  have d: "to_double (8732 / 10000) = Fin (3932543194619917 / 4503599627370496)"
    by (simp add: js_eval)
  have t1: "toFixed2 (\<lambda>q. []) (times100 (Fin (3932543194619917 / 4503599627370496))) = ''87.32''"
    by (simp add: js_eval)
  have t2: "toFixed2 (\<lambda>q. []) (times100 (Fin (1 / 2))) = ''50.00''"
    by (simp add: js_eval)
  have f: "formatResults (\<lambda>v. NaN) (\<lambda>q. [])
        (Some (JArr
          [JObj [(''class'', JStr ''plastic''),
                 (''confidence'', JNum (Fin (3932543194619917 / 4503599627370496)))],
           JObj [(''class'', JStr ''paper''), (''confidence'', JNum (Fin (1 / 2)))]]))
       = Inr (Lines
          [\<lparr> line_key = 0, label_child = Some (JStr ''plastic''),
             confidence_text = ''Confidence: 87.32%'' \<rparr>,
           \<lparr> line_key = 1, label_child = Some (JStr ''paper''),
             confidence_text = ''Confidence: 50.00%'' \<rparr>])"
    by (simp add: formatResults_def format_item_def t1 t2 del: times100.simps)
  show ?thesis
    using h1 h2 d f
      formatResults_lines [of "JObj [(''plastic'', JNum (Fin (1 / 2)))]" "\<lambda>v. NaN" "\<lambda>q. []"
        "[JObj [(''class'', JStr ''plastic''),
               (''confidence'', JNum (Fin (3932543194619917 / 4503599627370496)))],
         JObj [(''class'', JStr ''paper''), (''confidence'', JNum (Fin (1 / 2)))]]"
        "[(''plastic'', 3932543194619917 / 4503599627370496), (''paper'', 1 / 2)]"]
    by simp
qed

text \<open>
  Claim C9 as stated fails: it speaks of every present result, and the entries of a stored
  array are whatever the reply carried. A success reply whose prediction list holds an
  entry without \<open>confidence\<close> is stored as it is; it is an array, and its one line reads
  "Confidence: NaN%", which has no decimal digits. For the array holding \<open>null\<close>, reading
  \<open>item.class\<close> throws, so there is neither a placeholder nor a line.
\<close>

theorem formatResults_lines_counterexample:
  "result (classify
      (Resolved \<lparr> ok = True, body = Some (JObj [(''results'',
          JObj [(''predictions'', JArr [JObj [(''class'', JStr ''plastic'')]])])]) \<rparr>)
      (initial\<lparr> image_val := Some ''data:image/png;base64,AAAA'' \<rparr>))
     = Some (JArr [JObj [(''class'', JStr ''plastic'')]])
   \<and> isArray (Some (JArr [JObj [(''class'', JStr ''plastic'')]]))
   \<and> formatResults (\<lambda>v. NaN) (\<lambda>q. []) (Some (JArr [JObj [(''class'', JStr ''plastic'')]]))
       = Inr (Lines [\<lparr> line_key = 0, label_child = Some (JStr ''plastic''),
                       confidence_text = ''Confidence: NaN%'' \<rparr>])
   \<and> isArray (Some (JArr [JNull]))
   \<and> formatResults (\<lambda>v. NaN) (\<lambda>q. []) (Some (JArr [JNull])) = Inl TypeError"
  by (simp add: handleClassify_def classify_def run_def showMessage_def settle_def try_block_def
      or_else_def initial_def formatResults_def format_item_def toFixed2_def)

end
